theory Spec2Isabelle
  imports Complex_Main
begin

section \<open>Tunables and label tables of \<open>student_affect_monitor.py\<close>\<close>

text \<open>
  The module constants the fusion core reads.  A decimal literal is kept as the number it
  writes down; the double it denotes is given by the arithmetic below.
\<close>

definition ALERT_THRESHOLD :: nat where
  "ALERT_THRESHOLD = 5"

definition EAR_THRESH :: real where
  "EAR_THRESH = 23 / 100"

definition EAR_CONSEC_FRAMES :: int where
  "EAR_CONSEC_FRAMES = 15"

text \<open>\<open>LEFT_EYE = list(range(42, 48))\<close>, \<open>RIGHT_EYE = list(range(36, 42))\<close>.\<close>

definition LEFT_EYE :: "nat list" where
  "LEFT_EYE = [42, 43, 44, 45, 46, 47]"

definition RIGHT_EYE :: "nat list" where
  "RIGHT_EYE = [36, 37, 38, 39, 40, 41]"

text \<open>The dictionary \<open>RAW_TO_HIGH\<close>, as an association list read with \<open>map_of\<close>.\<close>

definition RAW_TO_HIGH :: "(string \<times> string) list" where
  "RAW_TO_HIGH =
     [(''angry'', ''tension/frustration''),
      (''fear'', ''tension/frustration''),
      (''disgust'', ''confusion''),
      (''surprise'', ''confusion''),
      (''sad'', ''boredom''),
      (''happy'', ''engagement/focus''),
      (''neutral'', ''engagement/focus'')]"

definition NEGATIVE_EMOTIONS :: "string list" where
  "NEGATIVE_EMOTIONS = [''tired'', ''tension/frustration'', ''confusion'', ''boredom'']"

text \<open>
  \<open>def harmonise(raw_face, tired_flag):
       return "tired" if tired_flag else RAW_TO_HIGH.get(raw_face, "engagement/focus")\<close>
\<close>

definition harmonise :: "string \<Rightarrow> bool \<Rightarrow> string" where
  "harmonise raw_face tired_flag =
     (if tired_flag then ''tired''
      else (case map_of RAW_TO_HIGH raw_face of
              Some high \<Rightarrow> high
            | None \<Rightarrow> ''engagement/focus''))"


section \<open>Double-precision arithmetic\<close>

text \<open>
  The source computes with doubles: the distances of \<open>scipy\<close>'s \<open>dist.euclidean\<close>, the
  sum, product, quotient and comparison of numpy floats, and \<open>statistics.mean\<close>.  None of
  these is written in the repository, and their rounding is not that of the real numbers,
  so they are parameters of the model: \<open>'d\<close> is the type of doubles (with its infinities
  and not-a-number, which a numpy division by zero yields instead of raising), \<open>'p\<close> the
  type of points, \<open>f_lit\<close> gives the double a decimal literal denotes.  Nothing is assumed
  of them.
\<close>

record ('p, 'd) numerics =
  dist_euclidean :: "'p \<Rightarrow> 'p \<Rightarrow> 'd"
  f_lit :: "real \<Rightarrow> 'd"
  f_add :: "'d \<Rightarrow> 'd \<Rightarrow> 'd"
  f_mul :: "'d \<Rightarrow> 'd \<Rightarrow> 'd"
  f_div :: "'d \<Rightarrow> 'd \<Rightarrow> 'd"
  f_less :: "'d \<Rightarrow> 'd \<Rightarrow> bool"
  statistics_mean :: "'d list \<Rightarrow> 'd"


section \<open>The eye aspect ratio\<close>

datatype py_error = IndexError | Cv2Error

text \<open>
  \<open>def ear(pts):
       A = dist.euclidean(pts[1], pts[5])
       B = dist.euclidean(pts[2], pts[4])
       C = dist.euclidean(pts[0], pts[3])
       return (A + B) / (2.0 * C)\<close>

  The same text stands in both source files.  Reading \<open>pts[5]\<close> of a shorter sequence
  raises \<open>IndexError\<close>.
\<close>

definition ear :: "('p, 'd) numerics \<Rightarrow> 'p list \<Rightarrow> py_error + 'd" where
  "ear np pts =
     (if length pts < 6 then Inl IndexError
      else
        (let A = dist_euclidean np (pts ! 1) (pts ! 5);
             B = dist_euclidean np (pts ! 2) (pts ! 4);
             C = dist_euclidean np (pts ! 0) (pts ! 3)
         in Inr (f_div np (f_add np A B) (f_mul np (f_lit np 2) C))))"

text \<open>
  Indexing a landmark sequence by a list of indices (\<open>shape_np[LEFT_EYE]\<close>,
  \<open>[lm[i] for i in LEFT_EYE]\<close>): an index past the end raises \<open>IndexError\<close>.
\<close>

definition select :: "'a list \<Rightarrow> nat list \<Rightarrow> py_error + 'a list" where
  "select xs idx =
     (if list_all (\<lambda>i. i < length xs) idx then Inr (map (\<lambda>i. xs ! i) idx)
      else Inl IndexError)"


section \<open>The webcam loop: eye-closure debouncing\<close>

text \<open>
  A frame that was read is the list of faces the detector found in it, each face being the
  landmark array \<open>shape_np\<close> of the predictor.  \<open>eyes_closed\<close> is the condition of the
  inner \<open>if\<close>; Python's \<open>and\<close> evaluates the right eye only when the left one is below
  the threshold.
\<close>

type_synonym 'p face = "'p list"
type_synonym 'p frame = "'p face list"

definition eyes_closed :: "('p, 'd) numerics \<Rightarrow> 'p face \<Rightarrow> py_error + bool" where
  "eyes_closed np shape_np =
     (case select shape_np LEFT_EYE of
        Inl e \<Rightarrow> Inl e
      | Inr l_eye \<Rightarrow>
          (case select shape_np RIGHT_EYE of
             Inl e \<Rightarrow> Inl e
           | Inr r_eye \<Rightarrow>
               (case ear np l_eye of
                  Inl e \<Rightarrow> Inl e
                | Inr el \<Rightarrow>
                    if f_less np el (f_lit np EAR_THRESH) then
                      (case ear np r_eye of
                         Inl e \<Rightarrow> Inl e
                       | Inr er \<Rightarrow> Inr (f_less np er (f_lit np EAR_THRESH)))
                    else Inr False)))"

text \<open>
  One pass of the \<open>while\<close> body over a frame: from the counter before the frame to the
  counter after it and the frame's \<open>tired_now\<close>.  The \<open>for\<close> loop breaks after the first
  face, and does nothing when there is none.
\<close>

fun detect_emotion_frame :: "('p, 'd) numerics \<Rightarrow> 'p frame \<Rightarrow> int \<Rightarrow> py_error + (int \<times> bool)" where
  "detect_emotion_frame np [] eye_closed_counter = Inr (eye_closed_counter, False)"
| "detect_emotion_frame np (shape_np # rest) eye_closed_counter =
     (case eyes_closed np shape_np of
        Inl e \<Rightarrow> Inl e
      | Inr True \<Rightarrow> Inr (eye_closed_counter + 1, False)
      | Inr False \<Rightarrow> Inr (0, EAR_CONSEC_FRAMES \<le> eye_closed_counter))"

text \<open>
  The loop over a sequence of frames: the final counter and the \<open>tired_now\<close> of every
  frame, in order.  An exception ends the thread.
\<close>

fun detect_emotion_frames :: "('p, 'd) numerics \<Rightarrow> 'p frame list \<Rightarrow> int \<Rightarrow> py_error + (int \<times> bool list)" where
  "detect_emotion_frames np [] c = Inr (c, [])"
| "detect_emotion_frames np (f # fs) c =
     (case detect_emotion_frame np f c of
        Inl e \<Rightarrow> Inl e
      | Inr (c', tired_now) \<Rightarrow>
          (case detect_emotion_frames np fs c' of
             Inl e \<Rightarrow> Inl e
           | Inr (c'', ts) \<Rightarrow> Inr (c'', tired_now # ts)))"

text \<open>What the condition \<open>bothEyesClosed\<close> says of a frame with a detected face.\<close>

definition both_eyes_closed :: "('p, 'd) numerics \<Rightarrow> 'p frame \<Rightarrow> bool" where
  "both_eyes_closed np f =
     (case f of [] \<Rightarrow> False | shape_np # rest \<Rightarrow> eyes_closed np shape_np = Inr True)"

definition eyes_open :: "('p, 'd) numerics \<Rightarrow> 'p frame \<Rightarrow> bool" where
  "eyes_open np f =
     (case f of [] \<Rightarrow> False | shape_np # rest \<Rightarrow> eyes_closed np shape_np = Inr False)"


section \<open>The fusion thread: one cycle of \<open>analyze_emotions\<close>\<close>

text \<open>
  The module's runtime globals.  \<open>key_press_times\<close> maps the printed key to the time of
  its press; the typing metrics are durations in seconds, doubles.
\<close>

record 'd monitor_state =
  emotion_window :: "string list"
  typing_metrics :: "'d list"
  scroll_events :: int
  eye_closed_counter :: int
  key_press_times :: "string \<rightharpoonup> 'd"

record report =
  facial :: string
  typing :: string
  scrolling :: string

text \<open>
  \<open>collections.Counter\<close> over a sequence: a dictionary from element to number of
  occurrences whose \<open>items()\<close> come in the order of first occurrence.
\<close>

fun counter_add :: "'a \<Rightarrow> ('a \<times> nat) list \<Rightarrow> ('a \<times> nat) list" where
  "counter_add x [] = [(x, 1)]"
| "counter_add x ((k, c) # kcs) =
     (if k = x then (k, c + 1) # kcs else (k, c) # counter_add x kcs)"

definition Counter :: "'a list \<Rightarrow> ('a \<times> nat) list" where
  "Counter xs = foldl (\<lambda>acc x. counter_add x acc) [] xs"

text \<open>
  \<open>for emo, cnt in counts.items():
       if cnt >= ALERT_THRESHOLD:
           threading.Thread(target=show_popup, args=(emo,), daemon=True).start()
           emotion_window = [e for e in emotion_window if e != emo]\<close>

  The state of the loop is the list of labels a popup thread was started for, in order,
  and the window.
\<close>

fun alert_loop :: "(string \<times> nat) list \<Rightarrow> string list \<times> string list \<Rightarrow> string list \<times> string list" where
  "alert_loop [] (popups, window) = (popups, window)"
| "alert_loop ((emo, cnt) # items) (popups, window) =
     (if ALERT_THRESHOLD \<le> cnt
      then alert_loop items (popups @ [emo], filter (\<lambda>e. e \<noteq> emo) window)
      else alert_loop items (popups, window))"

text \<open>
  Python's \<open>max(iterable, key=f)\<close> on a non-empty iterable: the first element, in
  iteration order, whose key is the largest.
\<close>

fun max_from :: "('a \<Rightarrow> nat) \<Rightarrow> 'a \<Rightarrow> 'a list \<Rightarrow> 'a" where
  "max_from key best [] = best"
| "max_from key best (x # xs) =
     (if key best < key x then max_from key x xs else max_from key best xs)"

text \<open>
  \<open>face_mode = max(set(emotion_window), key=emotion_window.count)
               if emotion_window else "engagement/focus"\<close>

  The order in which Python iterates over a set of strings is not fixed by the language
  (it follows the hashes, which vary from run to run): it is the parameter \<open>set_order\<close>,
  which gives for a list the order in which the set of its elements is iterated.  The set of
  a non-empty window is not empty, so the case of an empty order does not arise for an
  order of the window's set; it is given the default.
\<close>

definition face_mode_of :: "(string list \<Rightarrow> string list) \<Rightarrow> string list \<Rightarrow> string" where
  "face_mode_of set_order window =
     (if window = [] then ''engagement/focus''
      else (case set_order window of
              [] \<Rightarrow> ''engagement/focus''
            | x # xs \<Rightarrow> max_from (count_list window) x xs))"

text \<open>
  \<open>if typing_metrics:
       avg = statistics.mean(typing_metrics)
       typing_state = ("confused/frustrated" if avg > 0.5
                       else "confident" if avg < 0.15 else "neutral")
   else: typing_state = "inactive"\<close>
\<close>

definition typing_state_of :: "('p, 'd) numerics \<Rightarrow> 'd list \<Rightarrow> string" where
  "typing_state_of np metrics =
     (if metrics \<noteq> [] then
        (let avg = statistics_mean np metrics
         in if f_less np (f_lit np (1 / 2)) avg then ''confused/frustrated''
            else if f_less np avg (f_lit np (15 / 100)) then ''confident''
            else ''neutral'')
      else ''inactive'')"

definition scroll_state_of :: "int \<Rightarrow> string" where
  "scroll_state_of n = (if n > 10 then ''impatient/restless'' else ''focused'')"

text \<open>The window left by the alert loop, and the popups it started.\<close>

definition alert_pass :: "string list \<Rightarrow> string list \<times> string list" where
  "alert_pass window =
     alert_loop (Counter (filter (\<lambda>e. e \<in> set NEGATIVE_EMOTIONS) window)) ([], window)"

text \<open>
  One iteration of the \<open>while True\<close> loop of \<open>analyze_emotions\<close>, after the sleep: the
  report printed, the popups started and the globals afterwards.
\<close>

definition analyze_emotions :: "('p, 'd) numerics \<Rightarrow> (string list \<Rightarrow> string list) \<Rightarrow> 'd monitor_state \<Rightarrow> (report \<times> string list) \<times> 'd monitor_state" where
  "analyze_emotions np set_order s =
     (let (popups, window) = alert_pass (emotion_window s);
          face_mode = face_mode_of set_order window;
          typing_state = typing_state_of np (typing_metrics s);
          scroll_state = scroll_state_of (scroll_events s);
          face_mode' = (if face_mode = ''engagement/focus'' \<and> scroll_events s > 15
                        then ''boredom'' else face_mode)
      in ((\<lparr>facial = face_mode', typing = typing_state, scrolling = scroll_state\<rparr>, popups),
          s\<lparr>emotion_window := window, typing_metrics := [], scroll_events := 0\<rparr>))"


section \<open>The single-shot endpoint of \<open>api.py\<close>\<close>

text \<open>
  The collaborators of the handler are parameters: the image decoder, the face mesh (the
  landmark lists of the faces it found, each landmark given by the pair of its \<open>x\<close> and
  \<open>y\<close>, which is all the handler reads) and the classifier (\<open>None\<close> when it raises, else
  the dominant label and its score).  \<open>mp_face_mesh\<close>, which the module imports to build
  the face mesh, is not defined in the monitor's source.

  The decoder either raises, or returns \<open>None\<close> for bytes that are no image, or returns the
  image.
\<close>

record ('f, 'p, 'd) collaborators =
  imdecode :: "nat list \<Rightarrow> py_error + 'f option"
  face_mesh_process :: "'f \<Rightarrow> 'p list list"
  deepface_analyze :: "'f \<Rightarrow> (string \<times> 'd) option"

text \<open>
  \<open>cv2.imdecode\<close> checks that its buffer is not empty before it decodes, and raises
  \<open>cv2.error\<close> when it is: an upload of zero bytes does not come back as \<open>None\<close>.
\<close>

definition cv2_imdecode :: "('f, 'p, 'd) collaborators \<Rightarrow> nat list \<Rightarrow> py_error + 'f option" where
  "cv2_imdecode ext buf = (if buf = [] then Inl Cv2Error else imdecode ext buf)"

record upload =
  content_type :: string
  body :: "nat list"

text \<open>
  What the client gets when the handler does not return: the \<open>HTTPException\<close> it raised,
  or the server error of an exception nothing caught.
\<close>

datatype api_error = HTTPException nat string | Unhandled py_error

record 'd response =
  label :: string
  score :: 'd

text \<open>
  \<open>tired = False
   if res.multi_face_landmarks:
       lm = res.multi_face_landmarks[0].landmark
       l_eye = [(lm[i].x, lm[i].y) for i in LEFT_EYE]
       r_eye = [(lm[i].x, lm[i].y) for i in RIGHT_EYE]
       if ear(l_eye + r_eye) < EAR_THRESH:
           tired = True\<close>
\<close>

definition tired_of :: "('p, 'd) numerics \<Rightarrow> 'p list list \<Rightarrow> py_error + bool" where
  "tired_of np multi_face_landmarks =
     (case multi_face_landmarks of
        [] \<Rightarrow> Inr False
      | lm # others \<Rightarrow>
          (case select lm LEFT_EYE of
             Inl e \<Rightarrow> Inl e
           | Inr l_eye \<Rightarrow>
               (case select lm RIGHT_EYE of
                  Inl e \<Rightarrow> Inl e
                | Inr r_eye \<Rightarrow>
                    (case ear np (l_eye @ r_eye) of
                       Inl e \<Rightarrow> Inl e
                     | Inr v \<Rightarrow> Inr (f_less np v (f_lit np EAR_THRESH))))))"

text \<open>
  The handler \<open>affect\<close>.  Nothing catches an exception of the decoder or of the landmark
  indexing.  The handler assigns to no global, so the globals of the imported monitor
  module come back as they went in.
\<close>

definition affect :: "('p, 'd) numerics \<Rightarrow> ('f, 'p, 'd) collaborators \<Rightarrow> upload \<Rightarrow> 'd monitor_state \<Rightarrow> (api_error + 'd response) \<times> 'd monitor_state" where
  "affect np ext file s =
     (if content_type file \<noteq> ''image/jpeg'' \<and> content_type file \<noteq> ''image/png''
      then (Inl (HTTPException 415 ''upload an image''), s)
      else
        (case cv2_imdecode ext (body file) of
           Inl e \<Rightarrow> (Inl (Unhandled e), s)
         | Inr None \<Rightarrow> (Inl (HTTPException 400 ''bad image''), s)
         | Inr (Some frame) \<Rightarrow>
             (case tired_of np (face_mesh_process ext frame) of
                Inl e \<Rightarrow> (Inl (Unhandled e), s)
              | Inr tired \<Rightarrow>
                  (let (raw, sc) = (case deepface_analyze ext frame of
                                      None \<Rightarrow> (''neutral'', f_lit np 0)
                                    | Some rs \<Rightarrow> rs)
                   in (Inr \<lparr>label = harmonise raw tired, score = sc\<rparr>, s)))))"


section \<open>Notions the properties are stated with\<close>

text \<open>
  A label fires an alert on a window when it is one of the negative labels and occurs at
  least \<open>ALERT_THRESHOLD\<close> times in it.
\<close>

definition alerted :: "string list \<Rightarrow> string \<Rightarrow> bool" where
  "alerted window l \<longleftrightarrow> l \<in> set NEGATIVE_EMOTIONS \<and> ALERT_THRESHOLD \<le> count_list window l"

text \<open>A label is a most frequent one of a window: it occurs, and no entry occurs more often.\<close>

definition most_frequent :: "string list \<Rightarrow> string \<Rightarrow> bool" where
  "most_frequent window m \<longleftrightarrow>
     m \<in> set window \<and> list_all (\<lambda>e. count_list window e \<le> count_list window m) window"


section \<open>Sample inputs\<close>

text \<open>
  An arithmetic for the sample runs, on real numbers.  It rounds nowhere, which double
  precision does; the sample contours and durations are chosen so that every distance,
  sum, product, quotient and mean taken of them is exact in double precision too (the
  distances are 0 and 3, the ratios 0 and 1, the mean is 7/8), no divisor is zero, and no
  comparison is near its threshold.
\<close>

definition sample_numerics :: "(real \<times> real, real) numerics" where
  "sample_numerics =
     \<lparr>dist_euclidean = (\<lambda>u v. sqrt ((fst u - fst v)\<^sup>2 + (snd u - snd v)\<^sup>2)),
      f_lit = (\<lambda>x. x),
      f_add = (\<lambda>a b. a + b),
      f_mul = (\<lambda>a b. a * b),
      f_div = (\<lambda>a b. a / b),
      f_less = (\<lambda>a b. a < b),
      statistics_mean = (\<lambda>xs. sum_list xs / real (length xs))\<rparr>"

text \<open>
  An eye contour with both lids on the corner line, and one that is wide open; faces of 68
  landmarks carrying them at the indices of the two eyes; two face meshes of 48 landmarks
  that differ in the right eye only.
\<close>

definition closed_eye :: "(real \<times> real) list" where
  "closed_eye = [(0, 0), (1, 0), (2, 0), (3, 0), (2, 0), (1, 0)]"

definition open_eye :: "(real \<times> real) list" where
  "open_eye = [(0, 0), (1, 2), (2, 2), (3, 0), (2, -1), (1, -1)]"

definition closed_face :: "(real \<times> real) face" where
  "closed_face = replicate 36 (0, 0) @ closed_eye @ closed_eye @ replicate 20 (0, 0)"

definition open_face :: "(real \<times> real) face" where
  "open_face = replicate 36 (0, 0) @ open_eye @ open_eye @ replicate 20 (0, 0)"

definition mesh_a :: "(real \<times> real) list" where
  "mesh_a = replicate 36 (0, 0) @ open_eye @ closed_eye"

definition mesh_b :: "(real \<times> real) list" where
  "mesh_b = replicate 36 (0, 0) @ closed_eye @ closed_eye"

definition globals :: "string list \<Rightarrow> real list \<Rightarrow> int \<Rightarrow> real monitor_state" where
  "globals window metrics n =
     \<lparr>emotion_window = window, typing_metrics = metrics, scroll_events = n,
      eye_closed_counter = 0, key_press_times = Map.empty\<rparr>"

text \<open>
  Collaborators for a run of the endpoint: a decoder that finds no image in any bytes, and
  a decoder that accepts everything with a classifier that answers \<open>happy\<close>.
\<close>

definition no_services :: "(unit, real \<times> real, real) collaborators" where
  "no_services =
     \<lparr>imdecode = (\<lambda>bytes. Inr None), face_mesh_process = (\<lambda>frame. []),
      deepface_analyze = (\<lambda>frame. None)\<rparr>"

definition happy_services :: "(unit, real \<times> real, real) collaborators" where
  "happy_services =
     \<lparr>imdecode = (\<lambda>bytes. Inr (Some ())), face_mesh_process = (\<lambda>frame. []),
      deepface_analyze = (\<lambda>frame. Some (''happy'', 3 / 4))\<rparr>"


section \<open>Facts about the debouncer\<close>

lemma closed_frame_step:
  "both_eyes_closed np f \<Longrightarrow> detect_emotion_frame np f c = Inr (c + 1, False)"
  by (cases f) (auto simp: both_eyes_closed_def)

lemma open_frame_step:
  "eyes_open np f \<Longrightarrow> detect_emotion_frame np f c = Inr (0, EAR_CONSEC_FRAMES \<le> c)"
  by (cases f) (auto simp: eyes_open_def)

text \<open>A run of closed-eye frames only counts; what follows starts from the count reached.\<close>

lemma closed_run:
  "list_all (both_eyes_closed np) fs \<Longrightarrow>
   detect_emotion_frames np (fs @ gs) c =
     (case detect_emotion_frames np gs (c + int (length fs)) of
        Inl e \<Rightarrow> Inl e
      | Inr (c', ts) \<Rightarrow> Inr (c', replicate (length fs) False @ ts))"
proof (induction fs arbitrary: c)
  case Nil
  show ?case by (simp split: sum.splits)
next
  case (Cons f fs)
  then have f: "detect_emotion_frame np f c = Inr (c + 1, False)"
    and fs: "list_all (both_eyes_closed np) fs"
    by (simp_all add: closed_frame_step)
  have "c + 1 + int (length fs) = c + int (length (f # fs))" by simp
  with Cons.IH [OF fs, of "c + 1"] f show ?case
    by (simp split: sum.splits prod.splits)
qed

lemma closed_then_open:
  assumes "list_all (both_eyes_closed np) fs" and "eyes_open np g"
  shows "detect_emotion_frames np (fs @ [g]) 0 =
           Inr (0, replicate (length fs) False @ [EAR_CONSEC_FRAMES \<le> int (length fs)])"
  using closed_run [OF assms(1), of "[g]" 0] open_frame_step [OF assms(2)]
  by simp

lemma no_face_run: "detect_emotion_frames np (replicate n []) c = Inr (c, replicate n False)"
  by (induction n) simp_all


section \<open>Facts about the sample eyes\<close>

lemma sample_dist_same_y: "dist_euclidean sample_numerics (a, c) (b, c) = \<bar>a - b\<bar>"
  by (simp add: sample_numerics_def)

lemma sample_dist_same_x: "dist_euclidean sample_numerics (c, a) (c, b) = \<bar>a - b\<bar>"
  by (simp add: sample_numerics_def)

lemma sample_ops:
  "f_lit sample_numerics x = x"
  "f_add sample_numerics a b = a + b"
  "f_mul sample_numerics a b = a * b"
  "f_div sample_numerics a b = a / b"
  "f_less sample_numerics a b = (a < b)"
  "statistics_mean sample_numerics xs = sum_list xs / real (length xs)"
  by (simp_all add: sample_numerics_def)

lemma ear_closed_eye: "ear sample_numerics closed_eye = Inr 0"
  by (simp add: ear_def closed_eye_def sample_dist_same_y sample_dist_same_x sample_ops)

lemma ear_open_eye: "ear sample_numerics open_eye = Inr 1"
  by (simp add: ear_def open_eye_def sample_dist_same_y sample_dist_same_x sample_ops)

lemma select_closed_face:
  "select closed_face LEFT_EYE = Inr closed_eye" "select closed_face RIGHT_EYE = Inr closed_eye"
  by (simp_all add: select_def closed_face_def LEFT_EYE_def RIGHT_EYE_def nth_append closed_eye_def)

lemma select_open_face:
  "select open_face LEFT_EYE = Inr open_eye" "select open_face RIGHT_EYE = Inr open_eye"
  by (simp_all add: select_def open_face_def LEFT_EYE_def RIGHT_EYE_def nth_append open_eye_def)

lemma eyes_closed_closed_face: "eyes_closed sample_numerics closed_face = Inr True"
  by (simp add: eyes_closed_def select_closed_face ear_closed_eye EAR_THRESH_def sample_ops)

lemma eyes_closed_open_face: "eyes_closed sample_numerics open_face = Inr False"
  by (simp add: eyes_closed_def select_open_face ear_open_eye EAR_THRESH_def sample_ops)


section \<open>Facts about the endpoint's tiredness test\<close>

lemma ear_append: "6 \<le> length l \<Longrightarrow> ear np (l @ r) = ear np l"
  by (auto simp: ear_def nth_append)

lemma select_length: "select xs idx = Inr ys \<Longrightarrow> length ys = length idx"
  by (auto simp: select_def split: if_splits)

lemma select_cong:
  assumes "length xs = length ys"
    and "\<And>i. i \<in> set idx \<Longrightarrow> i < length xs \<Longrightarrow> xs ! i = ys ! i"
  shows "select xs idx = select ys idx"
  using assms by (auto simp: select_def list_all_iff)

text \<open>
  The twelve points handed to \<open>ear\<close> are the left eye followed by the right eye, and
  \<open>ear\<close> reads the first six: the right eye only decides whether indexing it raises.
\<close>

lemma tired_of_left_only:
  "tired_of np (lm # others) =
     (case select lm LEFT_EYE of
        Inl e \<Rightarrow> Inl e
      | Inr l_eye \<Rightarrow>
          (case ear np l_eye of
             Inl e \<Rightarrow> Inl e
           | Inr v \<Rightarrow> Inr (f_less np v (f_lit np EAR_THRESH))))"
proof (cases "select lm LEFT_EYE")
  case (Inl e)
  then show ?thesis by (simp add: tired_of_def)
next
  case (Inr l_eye)
  then have len: "length l_eye = 6"
    using select_length [of lm LEFT_EYE l_eye] by (simp add: LEFT_EYE_def)
  have "list_all (\<lambda>i. i < length lm) LEFT_EYE"
    using Inr by (simp add: select_def split: if_splits)
  then have "list_all (\<lambda>i. i < length lm) RIGHT_EYE"
    by (simp add: LEFT_EYE_def RIGHT_EYE_def)
  then obtain r_eye where r: "select lm RIGHT_EYE = Inr r_eye"
    by (simp add: select_def)
  show ?thesis
    using Inr r len by (simp add: tired_of_def ear_append)
qed

lemma mesh_agree: "\<forall>i<length mesh_a. i \<notin> set RIGHT_EYE \<longrightarrow> mesh_a ! i = mesh_b ! i"
  by (auto simp: mesh_a_def mesh_b_def RIGHT_EYE_def nth_append open_eye_def closed_eye_def)

lemma mesh_differ: "mesh_a \<noteq> mesh_b"
  by (simp add: mesh_a_def mesh_b_def open_eye_def closed_eye_def)

lemma tired_mesh_a: "tired_of sample_numerics [mesh_a] = Inr True"
proof -
  have "select mesh_a LEFT_EYE = Inr closed_eye"
    by (simp add: select_def mesh_a_def LEFT_EYE_def nth_append closed_eye_def open_eye_def)
  then show ?thesis
    by (simp add: tired_of_left_only ear_closed_eye EAR_THRESH_def sample_ops)
qed

text \<open>
  The two rejections of the handler: a content type that is neither of the two accepted
  ones, and bytes, not none of them, in which the decoder finds no image.
\<close>

lemma affect_rejects:
  "(content_type file \<noteq> ''image/jpeg'' \<and> content_type file \<noteq> ''image/png''
      \<longrightarrow> affect np ext file s = (Inl (HTTPException 415 ''upload an image''), s))
   \<and> ((content_type file = ''image/jpeg'' \<or> content_type file = ''image/png'')
        \<and> body file \<noteq> [] \<and> imdecode ext (body file) = Inr None
      \<longrightarrow> affect np ext file s = (Inl (HTTPException 400 ''bad image''), s))"
  by (auto simp: affect_def cv2_imdecode_def)


section \<open>Facts about the counter, the alert loop and the maximum\<close>

lemma map_of_counter_add:
  "map_of (counter_add x kcs) k =
     (if k = x then Some (case map_of kcs x of None \<Rightarrow> 1 | Some c \<Rightarrow> c + 1) else map_of kcs k)"
  by (induction kcs) auto

lemma keys_counter_add:
  "map fst (counter_add x kcs) =
     (if x \<in> set (map fst kcs) then map fst kcs else map fst kcs @ [x])"
  by (induction kcs) force+

lemma distinct_counter_add:
  "distinct (map fst kcs) \<Longrightarrow> distinct (map fst (counter_add x kcs))"
  by (simp add: keys_counter_add)

lemma Counter_snoc: "Counter (xs @ [x]) = counter_add x (Counter xs)"
  by (simp add: Counter_def)

lemma distinct_Counter: "distinct (map fst (Counter xs))"
proof (induction xs rule: rev_induct)
  case Nil
  show ?case by (simp add: Counter_def)
next
  case (snoc x xs)
  then show ?case by (simp add: Counter_snoc distinct_counter_add)
qed

lemma map_of_Counter:
  "map_of (Counter xs) k = (if k \<in> set xs then Some (count_list xs k) else None)"
proof (induction xs rule: rev_induct)
  case Nil
  show ?case by (simp add: Counter_def)
next
  case (snoc x xs)
  then show ?case
    by (auto simp: Counter_snoc map_of_counter_add count_list_0_iff)
qed

lemma Counter_items:
  "(k, c) \<in> set (Counter xs) \<longleftrightarrow> k \<in> set xs \<and> c = count_list xs k"
proof -
  have "(k, c) \<in> set (Counter xs) \<longleftrightarrow> map_of (Counter xs) k = Some c"
    using distinct_Counter [of xs] by simp
  then show ?thesis
    by (auto simp: map_of_Counter)
qed

lemma alert_loop_eq:
  "alert_loop items (popups, window) =
     (popups @ map fst (filter (\<lambda>kc. ALERT_THRESHOLD \<le> snd kc) items),
      filter (\<lambda>e. e \<notin> set (map fst (filter (\<lambda>kc. ALERT_THRESHOLD \<le> snd kc) items))) window)"
proof (induction items arbitrary: popups window)
  case Nil
  show ?case by simp
next
  case (Cons kc items)
  obtain k c where kc: "kc = (k, c)" by (cases kc)
  show ?case
    unfolding kc by (auto simp: Cons.IH intro!: filter_cong)
qed

lemma count_list_filter:
  "count_list (filter P xs) k = (if P k then count_list xs k else 0)"
  by (induction xs) auto

lemma distinct_count_list:
  "distinct xs \<Longrightarrow> count_list xs x = (if x \<in> set xs then 1 else 0)"
  by (induction xs) auto

lemma alerted_items:
  "set (map fst (filter (\<lambda>kc. ALERT_THRESHOLD \<le> snd kc)
                   (Counter (filter (\<lambda>e. e \<in> set NEGATIVE_EMOTIONS) w))))
     = {l. alerted w l}"
proof (rule set_eqI)
  fix l
  let ?neg = "filter (\<lambda>e. e \<in> set NEGATIVE_EMOTIONS) w"
  have "l \<in> set (map fst (filter (\<lambda>kc. ALERT_THRESHOLD \<le> snd kc) (Counter ?neg)))
        \<longleftrightarrow> (\<exists>c. (l, c) \<in> set (Counter ?neg) \<and> ALERT_THRESHOLD \<le> c)"
    by force
  also have "\<dots> \<longleftrightarrow> l \<in> set ?neg \<and> ALERT_THRESHOLD \<le> count_list ?neg l"
    by (simp add: Counter_items)
  also have "\<dots> \<longleftrightarrow> alerted w l"
  proof (cases "l \<in> set NEGATIVE_EMOTIONS")
    case True
    have "ALERT_THRESHOLD \<le> count_list w l \<Longrightarrow> l \<in> set w"
      by (rule ccontr) (simp add: ALERT_THRESHOLD_def)
    with True show ?thesis
      by (auto simp: alerted_def count_list_filter)
  next
    case False
    then show ?thesis by (simp add: alerted_def)
  qed
  finally show "l \<in> set (map fst (filter (\<lambda>kc. ALERT_THRESHOLD \<le> snd kc) (Counter ?neg)))
        \<longleftrightarrow> l \<in> {l. alerted w l}" by simp
qed

lemma alert_pass_window: "snd (alert_pass w) = filter (\<lambda>e. \<not> alerted w e) w"
  unfolding alert_pass_def alert_loop_eq alerted_items by simp

lemma alert_pass_popups_set: "set (fst (alert_pass w)) = {l. alerted w l}"
  unfolding alert_pass_def alert_loop_eq
  using alerted_items [of w] by (simp del: set_map set_filter)

lemma alert_pass_popups_distinct: "distinct (fst (alert_pass w))"
  unfolding alert_pass_def alert_loop_eq
  using distinct_Counter [of "filter (\<lambda>e. e \<in> set NEGATIVE_EMOTIONS) w"]
  by (simp add: distinct_map_filter)

lemma max_from_mem: "max_from key b xs \<in> set (b # xs)"
  by (induction xs arbitrary: b) auto

lemma max_from_ge_best: "key b \<le> key (max_from key b xs)"
proof (induction xs arbitrary: b)
  case Nil
  show ?case by simp
next
  case (Cons x xs)
  show ?case
  proof (cases "key b < key x")
    case True
    with Cons.IH [of x] show ?thesis by simp
  next
    case False
    with Cons.IH [of b] show ?thesis by simp
  qed
qed

lemma max_from_ge: "y \<in> set (b # xs) \<Longrightarrow> key y \<le> key (max_from key b xs)"
proof (induction xs arbitrary: b)
  case Nil
  then show ?case by simp
next
  case (Cons x xs)
  show ?case
  proof (cases "key b < key x")
    case True
    from Cons.prems have "y = b \<or> y \<in> set (x # xs)" by auto
    then show ?thesis
    proof
      assume "y = b"
      with True max_from_ge_best [of key x xs] show ?thesis by simp
    next
      assume "y \<in> set (x # xs)"
      with True Cons.IH [of x] show ?thesis by simp
    qed
  next
    case False
    from Cons.prems have "y = x \<or> y \<in> set (b # xs)" by auto
    then show ?thesis
    proof
      assume "y = x"
      with False max_from_ge_best [of key b xs] show ?thesis by simp
    next
      assume "y \<in> set (b # xs)"
      with False Cons.IH [of b] show ?thesis by simp
    qed
  qed
qed

lemma face_mode_of_most_frequent:
  assumes "window \<noteq> []" and "set (set_order window) = set window"
  shows "most_frequent window (face_mode_of set_order window)"
proof -
  from assms obtain x xs where so: "set_order window = x # xs"
    by (cases "set_order window") auto
  let ?m = "max_from (count_list window) x xs"
  have fm: "face_mode_of set_order window = ?m"
    using assms(1) so by (simp add: face_mode_of_def)
  have sw: "set (x # xs) = set window"
    using so assms(2) by simp
  have "?m \<in> set window"
    using max_from_mem [of "count_list window" x xs] unfolding sw .
  moreover have "count_list window e \<le> count_list window ?m" if "e \<in> set window" for e
    using max_from_ge [of e x xs "count_list window"] that unfolding sw .
  ultimately show ?thesis
    by (simp add: fm most_frequent_def list_all_iff)
qed

text \<open>What one cycle returns, field by field.\<close>

lemma analyze_emotions_fields:
  assumes "analyze_emotions np set_order s = ((rep, popups), s')"
  shows "popups = fst (alert_pass (emotion_window s))"
    and "emotion_window s' = snd (alert_pass (emotion_window s))"
    and "typing_metrics s' = []"
    and "scroll_events s' = 0"
    and "typing rep = typing_state_of np (typing_metrics s)"
    and "scrolling rep = scroll_state_of (scroll_events s)"
    and "facial rep =
           (if face_mode_of set_order (emotion_window s') = ''engagement/focus''
               \<and> scroll_events s > 15
            then ''boredom'' else face_mode_of set_order (emotion_window s'))"
  using assms by (auto simp: analyze_emotions_def Let_def split: prod.splits)


section \<open>The harmoniser\<close>

text \<open>
  C5.  For every raw label \<open>r\<close>: \<open>harmonise r True\<close> is \<open>tired\<close>; with the flag false the
  seven labels of the table go to their categories, and every label outside the table goes
  to \<open>engagement/focus\<close>.
\<close>

theorem harmonise_table:
  "harmonise r True = ''tired''
   \<and> harmonise ''angry'' False = ''tension/frustration''
   \<and> harmonise ''fear'' False = ''tension/frustration''
   \<and> harmonise ''disgust'' False = ''confusion''
   \<and> harmonise ''surprise'' False = ''confusion''
   \<and> harmonise ''sad'' False = ''boredom''
   \<and> harmonise ''happy'' False = ''engagement/focus''
   \<and> harmonise ''neutral'' False = ''engagement/focus''
   \<and> (r \<notin> {''angry'', ''fear'', ''disgust'', ''surprise'', ''sad'', ''happy'', ''neutral''}
        \<longrightarrow> harmonise r False = ''engagement/focus'')"
  by (simp add: harmonise_def RAW_TO_HIGH_def)

theorem harmonise_table_witness:
  "''unknown_label'' \<notin> {''angry'', ''fear'', ''disgust'', ''surprise'', ''sad'', ''happy'', ''neutral''}
   \<and> harmonise ''unknown_label'' False = ''engagement/focus''
   \<and> harmonise ''unknown_label'' True = ''tired''"
  using harmonise_table [of "''unknown_label''"] by simp


section \<open>The eye-closure debouncer\<close>

text \<open>
  C2.  Starting from counter 0, with a face detected in every frame: fourteen frames with
  both eyes closed followed by a frame with the eyes open emit no \<open>tired\<close> at all; fifteen
  such frames followed by an open one emit \<open>tired\<close> once, on the sixteenth frame; either
  way the counter is 0 afterwards.  A frame with both eyes closed never emits \<open>tired\<close>, at
  any counter.
\<close>

theorem debounce_14_15:
  assumes "list_all (both_eyes_closed np) fs" and "eyes_open np g"
  shows "(length fs = 14 \<longrightarrow>
            detect_emotion_frames np (fs @ [g]) 0 = Inr (0, replicate 15 False))
       \<and> (length fs = 15 \<longrightarrow>
            detect_emotion_frames np (fs @ [g]) 0 = Inr (0, replicate 15 False @ [True]))
       \<and> (\<forall>f c. both_eyes_closed np f \<longrightarrow> detect_emotion_frame np f c = Inr (c + 1, False))"
proof -
  have run: "detect_emotion_frames np (fs @ [g]) 0 =
               Inr (0, replicate (length fs) False @ [EAR_CONSEC_FRAMES \<le> int (length fs)])"
    using assms by (rule closed_then_open)
  have "(15::nat) = Suc 14" by simp
  then have r: "replicate 14 False @ [False] = replicate 15 False"
    by (simp only: replicate_Suc replicate_append_same)
  have "length fs = 14 \<Longrightarrow> detect_emotion_frames np (fs @ [g]) 0 = Inr (0, replicate 15 False)"
    using run r by (simp add: EAR_CONSEC_FRAMES_def)
  moreover
  have "length fs = 15 \<Longrightarrow>
          detect_emotion_frames np (fs @ [g]) 0 = Inr (0, replicate 15 False @ [True])"
    using run by (simp add: EAR_CONSEC_FRAMES_def)
  ultimately show ?thesis
    by (simp add: closed_frame_step)
qed

theorem debounce_14_15_witness:
  "list_all (both_eyes_closed sample_numerics) (replicate 14 [closed_face])
   \<and> list_all (both_eyes_closed sample_numerics) (replicate 15 [closed_face])
   \<and> eyes_open sample_numerics [open_face]
   \<and> detect_emotion_frames sample_numerics (replicate 14 [closed_face] @ [[open_face]]) 0
       = Inr (0, replicate 15 False)
   \<and> detect_emotion_frames sample_numerics (replicate 15 [closed_face] @ [[open_face]]) 0
       = Inr (0, replicate 15 False @ [True])
   \<and> detect_emotion_frame sample_numerics [closed_face] 3 = Inr (4, False)"
proof -
  have c: "both_eyes_closed sample_numerics [closed_face]"
    by (simp add: both_eyes_closed_def eyes_closed_closed_face)
  have c14: "list_all (both_eyes_closed sample_numerics) (replicate 14 [closed_face])"
    and c15: "list_all (both_eyes_closed sample_numerics) (replicate 15 [closed_face])"
    using c by (simp_all add: list_all_iff)
  have op: "eyes_open sample_numerics [open_face]"
    by (simp add: eyes_open_def eyes_closed_open_face)
  have step: "detect_emotion_frame sample_numerics [closed_face] 3 = Inr (3 + 1, False)"
    using debounce_14_15 [OF c14 op] c by blast
  show ?thesis
    using debounce_14_15 [OF c14 op] debounce_14_15 [OF c15 op] step c14 c15 op
    by simp
qed

text \<open>
  C9.  A frame in which no face was detected emits \<open>tired = False\<close> and leaves the counter
  as it was; so does any number of such frames in a row.
\<close>

theorem no_face_keeps_counter:
  "detect_emotion_frame np [] c = Inr (c, False)
   \<and> detect_emotion_frames np (replicate n []) c = Inr (c, replicate n False)"
  by (simp add: no_face_run)

theorem no_face_keeps_counter_witness:
  "detect_emotion_frame sample_numerics [] 14 = Inr (14, False)
   \<and> detect_emotion_frames sample_numerics [[], [], []] 14 = Inr (14, [False, False, False])"
  using no_face_keeps_counter [of sample_numerics 14 3] by (simp add: numeral_3_eq_3)


section \<open>The fusion cycle\<close>

text \<open>The alert loop on the windows of the sample runs.\<close>

lemma sample_alert_pass:
  "alert_pass [''confusion'', ''confusion'', ''boredom'', ''confusion'', ''confusion'',
               ''confusion''] = ([''confusion''], [''boredom''])"
  "alert_pass [''boredom'', ''boredom'', ''boredom'', ''boredom'', ''boredom''] = ([''boredom''], [])"
  "alert_pass [''boredom'', ''tired'', ''boredom'', ''boredom'', ''confusion'', ''boredom'',
               ''tired'', ''boredom''] = ([''boredom''], [''tired'', ''confusion'', ''tired''])"
  "alert_pass [''engagement/focus'', ''engagement/focus'', ''engagement/focus'',
               ''engagement/focus'', ''engagement/focus'']
     = ([], [''engagement/focus'', ''engagement/focus'', ''engagement/focus'',
             ''engagement/focus'', ''engagement/focus''])"
  "alert_pass [''tired''] = ([], [''tired''])"
  by (simp_all add: alert_pass_def Counter_def NEGATIVE_EMOTIONS_def ALERT_THRESHOLD_def)

text \<open>
  C3.  In a cycle, every negative label that occurs at least \<open>ALERT_THRESHOLD\<close> times in the
  window as the cycle finds it gets exactly one popup and loses all its entries; no other
  label gets a popup, and the window afterwards is the old one without the entries of the
  alerted labels, so every other entry stays, in its place.
\<close>

theorem alert_dispatcher:
  assumes "analyze_emotions np set_order s = ((rep, popups), s')"
  shows "(\<forall>l. l \<in> set NEGATIVE_EMOTIONS \<and> ALERT_THRESHOLD \<le> count_list (emotion_window s) l
             \<longrightarrow> count_list popups l = 1 \<and> l \<notin> set (emotion_window s'))
       \<and> (\<forall>l. \<not> (l \<in> set NEGATIVE_EMOTIONS \<and> ALERT_THRESHOLD \<le> count_list (emotion_window s) l)
             \<longrightarrow> count_list popups l = 0
                 \<and> count_list (emotion_window s') l = count_list (emotion_window s) l)
       \<and> emotion_window s' =
           filter (\<lambda>e. \<not> (e \<in> set NEGATIVE_EMOTIONS
                           \<and> ALERT_THRESHOLD \<le> count_list (emotion_window s) e))
                  (emotion_window s)"
proof -
  let ?w = "emotion_window s"
  have p: "popups = fst (alert_pass ?w)" and w': "emotion_window s' = snd (alert_pass ?w)"
    using analyze_emotions_fields [OF assms] by simp_all
  have cnt: "count_list popups l = (if alerted ?w l then 1 else 0)" for l
    using alert_pass_popups_distinct [of ?w] alert_pass_popups_set [of ?w]
    by (simp add: p distinct_count_list)
  have win: "emotion_window s' = filter (\<lambda>e. \<not> alerted ?w e) ?w"
    by (simp add: w' alert_pass_window)
  have gone: "alerted ?w l \<Longrightarrow> l \<notin> set (emotion_window s')" for l
    by (simp add: win)
  have kept: "\<not> alerted ?w l \<Longrightarrow> count_list (emotion_window s') l = count_list ?w l" for l
    by (simp add: win count_list_filter)
  show ?thesis
    using cnt gone kept win unfolding alerted_def by simp
qed

theorem alert_dispatcher_witness:
  "analyze_emotions sample_numerics remdups
      (globals [''confusion'', ''confusion'', ''boredom'', ''confusion'', ''confusion'',
                ''confusion''] [] 0)
     = ((\<lparr>facial = ''boredom'', typing = ''inactive'', scrolling = ''focused''\<rparr>,
         [''confusion'']),
        globals [''boredom''] [] 0)
   \<and> ''confusion'' \<in> set NEGATIVE_EMOTIONS
   \<and> ALERT_THRESHOLD \<le> count_list [''confusion'', ''confusion'', ''boredom'', ''confusion'',
                                     ''confusion'', ''confusion''] ''confusion''
   \<and> count_list [''confusion''] ''confusion'' = 1
   \<and> \<not> ALERT_THRESHOLD \<le> count_list [''confusion'', ''confusion'', ''boredom'', ''confusion'',
                                       ''confusion'', ''confusion''] ''boredom''
   \<and> count_list [''confusion''] ''boredom'' = 0
   \<and> emotion_window (globals [''boredom''] [] 0) = [''boredom'']"
proof -
  let ?w = "[''confusion'', ''confusion'', ''boredom'', ''confusion'', ''confusion'', ''confusion'']"
  have run: "analyze_emotions sample_numerics remdups (globals ?w [] 0)
     = ((\<lparr>facial = ''boredom'', typing = ''inactive'', scrolling = ''focused''\<rparr>,
         [''confusion'']),
        globals [''boredom''] [] 0)"
    by (simp add: analyze_emotions_def sample_alert_pass face_mode_of_def typing_state_of_def
          scroll_state_of_def globals_def Let_def)
  show ?thesis
    using alert_dispatcher [OF run] run
    by (simp add: NEGATIVE_EMOTIONS_def ALERT_THRESHOLD_def globals_def)
qed

text \<open>
  C1, as stated, takes the majority over the window as the cycle finds it.  The cycle
  purges the alerted labels before it takes the majority: on five \<open>boredom\<close> entries and
  no scrolling it reports \<open>engagement/focus\<close>, which does not occur in that window at
  all, while \<open>boredom\<close> is its most frequent label.
\<close>

theorem facial_state_snapshot_counterexample:
  "facial (fst (fst (analyze_emotions sample_numerics remdups
       (globals [''boredom'', ''boredom'', ''boredom'', ''boredom'', ''boredom''] [] 0))))
     = ''engagement/focus''
   \<and> \<not> most_frequent [''boredom'', ''boredom'', ''boredom'', ''boredom'', ''boredom'']
         (facial (fst (fst (analyze_emotions sample_numerics remdups
            (globals [''boredom'', ''boredom'', ''boredom'', ''boredom'', ''boredom''] [] 0)))))
   \<and> most_frequent [''boredom'', ''boredom'', ''boredom'', ''boredom'', ''boredom''] ''boredom''"
  by (simp add: analyze_emotions_def sample_alert_pass face_mode_of_def typing_state_of_def
        scroll_state_of_def globals_def Let_def most_frequent_def)

text \<open>
  C1, amended.  The facial state a cycle computes is a most frequent label of the window
  that the alert purge leaves (the window of the cycle's start without the entries of the
  alerted labels), and \<open>engagement/focus\<close> when that remaining window is empty; the report
  carries it, up to the scroll override.  This holds for every order in which the set of
  the window's labels may be iterated.
\<close>

theorem facial_state_after_purge:
  assumes "analyze_emotions np set_order s = ((rep, popups), s')"
    and "set (set_order (emotion_window s')) = set (emotion_window s')"
  shows "emotion_window s' = filter (\<lambda>e. \<not> alerted (emotion_window s) e) (emotion_window s)
       \<and> (emotion_window s' = [] \<longrightarrow>
            face_mode_of set_order (emotion_window s') = ''engagement/focus'')
       \<and> (emotion_window s' \<noteq> [] \<longrightarrow>
            most_frequent (emotion_window s') (face_mode_of set_order (emotion_window s')))
       \<and> facial rep =
           (if face_mode_of set_order (emotion_window s') = ''engagement/focus''
               \<and> scroll_events s > 15
            then ''boredom'' else face_mode_of set_order (emotion_window s'))"
proof -
  have "emotion_window s' = filter (\<lambda>e. \<not> alerted (emotion_window s) e) (emotion_window s)"
    using analyze_emotions_fields(2) [OF assms(1)] by (simp add: alert_pass_window)
  moreover have "emotion_window s' = [] \<Longrightarrow>
      face_mode_of set_order (emotion_window s') = ''engagement/focus''"
    by (simp add: face_mode_of_def)
  moreover have "emotion_window s' \<noteq> [] \<Longrightarrow>
      most_frequent (emotion_window s') (face_mode_of set_order (emotion_window s'))"
    using assms(2) by (simp add: face_mode_of_most_frequent)
  ultimately show ?thesis
    using analyze_emotions_fields(7) [OF assms(1)] by simp
qed

theorem facial_state_after_purge_witness:
  "analyze_emotions sample_numerics remdups
      (globals [''boredom'', ''tired'', ''boredom'', ''boredom'', ''confusion'', ''boredom'',
                ''tired'', ''boredom''] [] 0)
     = ((\<lparr>facial = ''tired'', typing = ''inactive'', scrolling = ''focused''\<rparr>, [''boredom'']),
        globals [''tired'', ''confusion'', ''tired''] [] 0)
   \<and> set (remdups [''tired'', ''confusion'', ''tired'']) = set [''tired'', ''confusion'', ''tired'']
   \<and> [''tired'', ''confusion'', ''tired''] \<noteq> []
   \<and> most_frequent [''tired'', ''confusion'', ''tired'']
        (face_mode_of remdups [''tired'', ''confusion'', ''tired''])
   \<and> face_mode_of remdups [''tired'', ''confusion'', ''tired''] = ''tired''"
proof -
  let ?w = "[''boredom'', ''tired'', ''boredom'', ''boredom'', ''confusion'', ''boredom'',
             ''tired'', ''boredom'']"
  have run: "analyze_emotions sample_numerics remdups (globals ?w [] 0)
     = ((\<lparr>facial = ''tired'', typing = ''inactive'', scrolling = ''focused''\<rparr>, [''boredom'']),
        globals [''tired'', ''confusion'', ''tired''] [] 0)"
    by (simp add: analyze_emotions_def sample_alert_pass face_mode_of_def typing_state_of_def
          scroll_state_of_def globals_def Let_def)
  have so: "set (remdups (emotion_window (globals [''tired'', ''confusion'', ''tired''] [] 0)))
              = set (emotion_window (globals [''tired'', ''confusion'', ''tired''] [] 0))"
    by simp
  have fm: "face_mode_of remdups [''tired'', ''confusion'', ''tired''] = ''tired''"
    by (simp add: face_mode_of_def)
  have mf: "most_frequent [''tired'', ''confusion'', ''tired'']
              (face_mode_of remdups [''tired'', ''confusion'', ''tired''])"
    using facial_state_after_purge [OF run so, THEN conjunct2, THEN conjunct2, THEN conjunct1]
    by (simp add: globals_def)
  have se: "set (remdups [''tired'', ''confusion'', ''tired'']) = set [''tired'', ''confusion'', ''tired'']"
    by (simp only: set_remdups)
  show ?thesis
    using run fm mf se by (simp del: remdups.simps)
qed

text \<open>
  C4.  The facial state a cycle computes is reported as \<open>boredom\<close> when it is
  \<open>engagement/focus\<close> and the cycle's scroll count is above 15; when it is any other
  label, or the count is at most 15, it is reported as it is.
\<close>

theorem scroll_override:
  assumes "analyze_emotions np set_order s = ((rep, popups), s')"
  shows "(face_mode_of set_order (emotion_window s') = ''engagement/focus''
            \<and> scroll_events s > 15
          \<longrightarrow> facial rep = ''boredom'')
       \<and> (face_mode_of set_order (emotion_window s') \<noteq> ''engagement/focus''
            \<or> scroll_events s \<le> 15
          \<longrightarrow> facial rep = face_mode_of set_order (emotion_window s'))"
  using analyze_emotions_fields(7) [OF assms] by auto

theorem scroll_override_witness:
  "analyze_emotions sample_numerics remdups
      (globals [''engagement/focus'', ''engagement/focus'', ''engagement/focus'',
                ''engagement/focus'', ''engagement/focus''] [] 16)
     = ((\<lparr>facial = ''boredom'', typing = ''inactive'', scrolling = ''impatient/restless''\<rparr>, []),
        globals [''engagement/focus'', ''engagement/focus'', ''engagement/focus'',
                 ''engagement/focus'', ''engagement/focus''] [] 0)
   \<and> face_mode_of remdups [''engagement/focus'', ''engagement/focus'', ''engagement/focus'',
                            ''engagement/focus'', ''engagement/focus''] = ''engagement/focus''
   \<and> (16::int) > 15
   \<and> analyze_emotions sample_numerics remdups
      (globals [''engagement/focus'', ''engagement/focus'', ''engagement/focus'',
                ''engagement/focus'', ''engagement/focus''] [] 15)
     = ((\<lparr>facial = ''engagement/focus'', typing = ''inactive'',
          scrolling = ''impatient/restless''\<rparr>, []),
        globals [''engagement/focus'', ''engagement/focus'', ''engagement/focus'',
                 ''engagement/focus'', ''engagement/focus''] [] 0)
   \<and> (15::int) \<le> 15"
proof -
  let ?w = "[''engagement/focus'', ''engagement/focus'', ''engagement/focus'',
             ''engagement/focus'', ''engagement/focus'']"
  have run16: "analyze_emotions sample_numerics remdups (globals ?w [] 16)
     = ((\<lparr>facial = ''boredom'', typing = ''inactive'', scrolling = ''impatient/restless''\<rparr>, []),
        globals ?w [] 0)"
    by (simp add: analyze_emotions_def sample_alert_pass face_mode_of_def typing_state_of_def
          scroll_state_of_def globals_def Let_def)
  have run15: "analyze_emotions sample_numerics remdups (globals ?w [] 15)
     = ((\<lparr>facial = ''engagement/focus'', typing = ''inactive'',
          scrolling = ''impatient/restless''\<rparr>, []),
        globals ?w [] 0)"
    by (simp add: analyze_emotions_def sample_alert_pass face_mode_of_def typing_state_of_def
          scroll_state_of_def globals_def Let_def)
  have fm: "face_mode_of remdups ?w = ''engagement/focus''"
    by (simp add: face_mode_of_def)
  show ?thesis
    using scroll_override [OF run16] scroll_override [OF run15] run16 run15 fm
    by simp
qed

text \<open>
  C8.  Of two cycles run one after the other with nothing appended in between, the second
  always reports typing \<open>inactive\<close> and scrolling \<open>focused\<close>, since the first has cleared
  the typing window and the scroll counter; and when the two were already clear before the
  first cycle, the first reports the same.
\<close>

theorem reducer_twice:
  assumes "analyze_emotions np set_order s = ((r1, p1), s1)"
    and "analyze_emotions np set_order' s1 = ((r2, p2), s2)"
  shows "typing r2 = ''inactive'' \<and> scrolling r2 = ''focused''
       \<and> (typing_metrics s = [] \<and> scroll_events s = 0
            \<longrightarrow> typing r1 = ''inactive'' \<and> scrolling r1 = ''focused'')"
proof -
  have s1: "typing_metrics s1 = []" "scroll_events s1 = 0"
    using analyze_emotions_fields(3,4) [OF assms(1)] by simp_all
  have r1: "typing r1 = typing_state_of np (typing_metrics s)"
    "scrolling r1 = scroll_state_of (scroll_events s)"
    using analyze_emotions_fields(5,6) [OF assms(1)] by simp_all
  have r2: "typing r2 = typing_state_of np (typing_metrics s1)"
    "scrolling r2 = scroll_state_of (scroll_events s1)"
    using analyze_emotions_fields(5,6) [OF assms(2)] by simp_all
  show ?thesis
    by (simp add: r1 r2 s1 typing_state_of_def scroll_state_of_def)
qed

theorem reducer_twice_witness:
  "analyze_emotions sample_numerics remdups (globals [''tired''] [] 0)
     = ((\<lparr>facial = ''tired'', typing = ''inactive'', scrolling = ''focused''\<rparr>, []),
        globals [''tired''] [] 0)
   \<and> typing_metrics (globals [''tired''] [] 0) = []
   \<and> scroll_events (globals [''tired''] [] 0) = 0
   \<and> analyze_emotions sample_numerics remdups (globals [''tired''] [3 / 4, 1] 12)
     = ((\<lparr>facial = ''tired'', typing = ''confused/frustrated'',
          scrolling = ''impatient/restless''\<rparr>, []),
        globals [''tired''] [] 0)"
proof -
  have run0: "analyze_emotions sample_numerics remdups (globals [''tired''] [] 0)
     = ((\<lparr>facial = ''tired'', typing = ''inactive'', scrolling = ''focused''\<rparr>, []),
        globals [''tired''] [] 0)"
    by (simp add: analyze_emotions_def sample_alert_pass face_mode_of_def typing_state_of_def
          scroll_state_of_def globals_def Let_def)
  have run1: "analyze_emotions sample_numerics remdups (globals [''tired''] [3 / 4, 1] 12)
     = ((\<lparr>facial = ''tired'', typing = ''confused/frustrated'',
          scrolling = ''impatient/restless''\<rparr>, []),
        globals [''tired''] [] 0)"
    by (simp add: analyze_emotions_def sample_alert_pass face_mode_of_def typing_state_of_def
          scroll_state_of_def globals_def Let_def sample_ops)
  show ?thesis
    using reducer_twice [OF run0 run0] reducer_twice [OF run1 run0] run0 run1
    by (simp add: globals_def)
qed


section \<open>The single-shot endpoint\<close>

text \<open>
  C6.  When the face mesh finds a face, the tiredness flag of the endpoint is decided by the
  six left-eye landmarks alone: two landmark lists of the same length that agree at every
  index outside \<open>RIGHT_EYE\<close> give the same flag (or the same error), and the handler gives
  the same answer for both.
\<close>

theorem tired_ignores_right_eye:
  assumes "length lm = length lm'"
    and "\<forall>i<length lm. i \<notin> set RIGHT_EYE \<longrightarrow> lm ! i = lm' ! i"
  shows "tired_of np (lm # others) = tired_of np (lm' # others')
       \<and> affect np (ext\<lparr>face_mesh_process := \<lambda>frame. lm # others\<rparr>) file s
         = affect np (ext\<lparr>face_mesh_process := \<lambda>frame. lm' # others'\<rparr>) file s"
proof -
  have "select lm LEFT_EYE = select lm' LEFT_EYE"
  proof (rule select_cong [OF assms(1)])
    fix i assume "i \<in> set LEFT_EYE" and "i < length lm"
    then show "lm ! i = lm' ! i"
      using assms(2) by (auto simp: LEFT_EYE_def RIGHT_EYE_def)
  qed
  then have "tired_of np (lm # others) = tired_of np (lm' # others')"
    by (simp add: tired_of_left_only)
  then show ?thesis
    by (simp add: affect_def cv2_imdecode_def split: sum.splits option.splits)
qed

theorem tired_ignores_right_eye_witness:
  "length mesh_a = length mesh_b
   \<and> list_all (\<lambda>i. mesh_a ! i = mesh_b ! i) ([0..<36] @ LEFT_EYE)
   \<and> mesh_a \<noteq> mesh_b
   \<and> tired_of sample_numerics [mesh_a] = Inr True
   \<and> tired_of sample_numerics [mesh_b] = Inr True
   \<and> affect sample_numerics (happy_services\<lparr>face_mesh_process := \<lambda>frame. [mesh_b]\<rparr>)
        \<lparr>content_type = ''image/png'', body = [137, 80, 78, 71]\<rparr> (globals [] [] 0)
       = affect sample_numerics (happy_services\<lparr>face_mesh_process := \<lambda>frame. [mesh_a]\<rparr>)
        \<lparr>content_type = ''image/png'', body = [137, 80, 78, 71]\<rparr> (globals [] [] 0)"
proof -
  have len: "length mesh_a = length mesh_b"
    by (simp add: mesh_a_def mesh_b_def open_eye_def closed_eye_def)
  note same = tired_ignores_right_eye [OF len mesh_agree,
      of sample_numerics "[]" "[]" happy_services
         "\<lparr>content_type = ''image/png'', body = [137, 80, 78, 71]\<rparr>" "globals [] [] 0"]
  have b: "tired_of sample_numerics [mesh_b] = Inr True"
    using same tired_mesh_a by simp
  have "affect sample_numerics (happy_services\<lparr>face_mesh_process := \<lambda>frame. [mesh_b]\<rparr>)
        \<lparr>content_type = ''image/png'', body = [137, 80, 78, 71]\<rparr> (globals [] [] 0)
       = affect sample_numerics (happy_services\<lparr>face_mesh_process := \<lambda>frame. [mesh_a]\<rparr>)
        \<lparr>content_type = ''image/png'', body = [137, 80, 78, 71]\<rparr> (globals [] [] 0)"
    using same by simp
  moreover have "list_all (\<lambda>i. mesh_a ! i = mesh_b ! i) ([0..<36] @ LEFT_EYE)"
    using mesh_agree
    by (auto simp: list_all_iff LEFT_EYE_def RIGHT_EYE_def mesh_a_def open_eye_def closed_eye_def)
  ultimately show ?thesis
    using len mesh_differ tired_mesh_a b by simp
qed

text \<open>
  C7.  An upload of zero bytes with an accepted content type is not answered with the error
  400: the decoder raises on the empty buffer, nothing in the handler catches it, and the
  client gets a server error.  The globals are untouched.
\<close>

theorem affect_empty_upload:
  "affect np ext \<lparr>content_type = ''image/jpeg'', body = []\<rparr> s = (Inl (Unhandled Cv2Error), s)
   \<and> affect np ext \<lparr>content_type = ''image/jpeg'', body = []\<rparr> s
       \<noteq> (Inl (HTTPException 400 ''bad image''), s)"
  by (simp add: affect_def cv2_imdecode_def)


end
